theory Spec2Isabelle
  imports Complex_Main
begin

section \<open>Python values\<close>

text \<open>
  The values that \<^verbatim>\<open>response.json()\<close> hands to the program are Python objects built from
  \<^verbatim>\<open>None\<close>, booleans, integers, strings, lists and dictionaries with string keys.
  A dictionary is an association list in insertion order; a Python dictionary never holds
  a key twice, which is the invariant \<open>wf_pyobj\<close> below. A character of a \<open>string\<close> stands
  for a code point below 256. Floating point numbers are outside the model.
\<close>

datatype pyobj =
    PNone
  | PBool bool
  | PInt int
  | PStr string
  | PList "pyobj list"
  | PDict "(string \<times> pyobj) list"


text \<open>
  The exceptions the program can meet, each with the message that \<^verbatim>\<open>str(e)\<close> gives.
  All of them are subclasses of \<^verbatim>\<open>Exception\<close>; interrupts of the interpreter
  (\<^verbatim>\<open>KeyboardInterrupt\<close>, \<^verbatim>\<open>SystemExit\<close>) are outside the model.
\<close>

datatype exn =
    RequestException string
  | Timeout string
  | JSONDecodeError string
  | OSError string
  | KeyError string
  | TypeError string

subsection \<open>Formatting: \<^verbatim>\<open>str\<close>, \<^verbatim>\<open>repr\<close>, \<^verbatim>\<open>join\<close>\<close>

fun str_join :: "string \<Rightarrow> string list \<Rightarrow> string" where
  "str_join sep [] = []"
| "str_join sep [x] = x"
| "str_join sep (x # y # ys) = x @ sep @ str_join sep (y # ys)"

definition digit_char :: "nat \<Rightarrow> char" where
  "digit_char d = ''0123456789abcdef'' ! d"

fun str_nat :: "nat \<Rightarrow> string" where
  "str_nat n = (if n < 10 then [digit_char n] else str_nat (n div 10) @ [digit_char (n mod 10)])"

declare str_nat.simps [simp del]

definition str_int :: "int \<Rightarrow> string" where
  "str_int i = (if i < 0 then CHR ''-'' # str_nat (nat (- i)) else str_nat (nat i))"

definition hex2 :: "nat \<Rightarrow> string" where
  "hex2 n = [digit_char (n div 16), digit_char (n mod 16)]"

text \<open>\<^verbatim>\<open>repr\<close> of a string: the quote is \<^verbatim>\<open>'\<close> unless the string holds a \<^verbatim>\<open>'\<close> and no
  \<^verbatim>\<open>"\<close>; \<open>printable\<close> is \<^verbatim>\<open>str.isprintable\<close> on code points below 256.\<close>

definition repr_quote :: "string \<Rightarrow> char" where
  "repr_quote s = (if CHR 0x27 \<in> set s \<and> CHR 0x22 \<notin> set s then CHR 0x22 else CHR 0x27)"

definition printable :: "char \<Rightarrow> bool" where
  "printable c = (let n = (of_char c :: nat) in (32 \<le> n \<and> n < 127) \<or> (161 \<le> n \<and> n \<noteq> 173))"

definition repr_char :: "char \<Rightarrow> char \<Rightarrow> string" where
  "repr_char q c =
     (if c = q \<or> c = CHR 0x5C then [CHR 0x5C, c]
      else if c = CHR 0x09 then [CHR 0x5C, CHR ''t'']
      else if c = CHR 0x0A then [CHR 0x5C, CHR ''n'']
      else if c = CHR 0x0D then [CHR 0x5C, CHR ''r'']
      else if printable c then [c]
      else [CHR 0x5C, CHR ''x''] @ hex2 (of_char c))"

definition repr_str :: "string \<Rightarrow> string" where
  "repr_str s = (let q = repr_quote s in q # concat (map (repr_char q) s) @ [q])"

fun py_repr :: "pyobj \<Rightarrow> string" where
  "py_repr PNone = ''None''"
| "py_repr (PBool b) = (if b then ''True'' else ''False'')"
| "py_repr (PInt i) = str_int i"
| "py_repr (PStr s) = repr_str s"
| "py_repr (PList xs) = ''['' @ str_join '', '' (map py_repr xs) @ '']''"
| "py_repr (PDict kvs) =
     ''{'' @ str_join '', '' (map (\<lambda>kv. repr_str (fst kv) @ '': '' @ py_repr (snd kv)) kvs) @ ''}''"

text \<open>What an f-string puts in place of \<^verbatim>\<open>{x}\<close>: \<^verbatim>\<open>str(x)\<close>.\<close>

fun py_str :: "pyobj \<Rightarrow> string" where
  "py_str (PStr s) = s"
| "py_str x = py_repr x"

fun str_exn :: "exn \<Rightarrow> string" where
  "str_exn (RequestException m) = m"
| "str_exn (Timeout m) = m"
| "str_exn (JSONDecodeError m) = m"
| "str_exn (OSError m) = m"
| "str_exn (KeyError k) = repr_str k"
| "str_exn (TypeError m) = m"

subsection \<open>Subscripting and iteration\<close>

text \<open>\<^verbatim>\<open>obj[key]\<close> with a string key, and the sequence a \<^verbatim>\<open>for\<close> loop runs over.\<close>

fun subscript :: "pyobj \<Rightarrow> string \<Rightarrow> exn + pyobj" where
  "subscript (PDict kvs) k = (case map_of kvs k of None \<Rightarrow> Inl (KeyError k) | Some v \<Rightarrow> Inr v)"
| "subscript (PList xs) k = Inl (TypeError ''list indices must be integers or slices, not str'')"
| "subscript (PStr s) k = Inl (TypeError ''string indices must be integers'')"
| "subscript PNone k = Inl (TypeError '''NoneType' object is not subscriptable'')"
| "subscript (PBool b) k = Inl (TypeError '''bool' object is not subscriptable'')"
| "subscript (PInt i) k = Inl (TypeError '''int' object is not subscriptable'')"

fun py_iter :: "pyobj \<Rightarrow> exn + pyobj list" where
  "py_iter (PList xs) = Inr xs"
| "py_iter (PDict kvs) = Inr (map (\<lambda>kv. PStr (fst kv)) kvs)"
| "py_iter (PStr s) = Inr (map (\<lambda>c. PStr [c]) s)"
| "py_iter PNone = Inl (TypeError '''NoneType' object is not iterable'')"
| "py_iter (PBool b) = Inl (TypeError '''bool' object is not iterable'')"
| "py_iter (PInt i) = Inl (TypeError '''int' object is not iterable'')"

section \<open>The text that \<^verbatim>\<open>json.dump\<close> writes\<close>

text \<open>
  \<^verbatim>\<open>json.dump(obj, f)\<close> with its defaults: separators \<^verbatim>\<open>", "\<close> and \<^verbatim>\<open>": "\<close>, and
  \<^verbatim>\<open>ensure_ascii\<close>, so that every character outside \<^verbatim>\<open>' '..'~'\<close> is escaped.
\<close>

definition json_esc :: "char \<Rightarrow> string" where
  "json_esc c =
     (if c = CHR 0x22 then [CHR 0x5C, CHR 0x22]
      else if c = CHR 0x5C then [CHR 0x5C, CHR 0x5C]
      else if c = CHR 0x0A then [CHR 0x5C, CHR ''n'']
      else if c = CHR 0x0D then [CHR 0x5C, CHR ''r'']
      else if c = CHR 0x09 then [CHR 0x5C, CHR ''t'']
      else if c = CHR 0x08 then [CHR 0x5C, CHR ''b'']
      else if c = CHR 0x0C then [CHR 0x5C, CHR ''f'']
      else if 32 \<le> (of_char c :: nat) \<and> (of_char c :: nat) < 127 then [c]
      else [CHR 0x5C, CHR ''u'', CHR ''0'', CHR ''0''] @ hex2 (of_char c))"

definition json_str :: "string \<Rightarrow> string" where
  "json_str s = CHR 0x22 # concat (map json_esc s) @ [CHR 0x22]"

fun json_dumps :: "pyobj \<Rightarrow> string" where
  "json_dumps PNone = ''null''"
| "json_dumps (PBool b) = (if b then ''true'' else ''false'')"
| "json_dumps (PInt i) = str_int i"
| "json_dumps (PStr s) = json_str s"
| "json_dumps (PList xs) = ''['' @ str_join '', '' (map json_dumps xs) @ '']''"
| "json_dumps (PDict kvs) =
     ''{'' @ str_join '', '' (map (\<lambda>kv. json_str (fst kv) @ '': '' @ json_dumps (snd kv)) kvs) @ ''}''"

section \<open>The outside world\<close>

text \<open>
  A response of the HTTP library: its status code and what \<^verbatim>\<open>response.json()\<close> does,
  which is to return the decoded body or to raise.
\<close>

record response =
  status_code :: nat
  json :: "exn + pyobj"

text \<open>
  The environment answers the program: \<open>http_get env k url\<close> is the outcome of the
  \<open>k\<close>-th GET of the session (counted from 0) when it asks for \<open>url\<close>, a raised exception
  (connection error, timeout) or a response; \<open>fs_open env path\<close> is the exception that
  \<^verbatim>\<open>open(path, 'w')\<close> raises, if any; \<open>fs_write env path\<close> is the exception raised while
  the text is written to the open file, if any, with the number of characters that
  reached the file before it.
\<close>

record env =
  http_get :: "nat \<Rightarrow> string \<Rightarrow> exn + response"
  fs_open :: "string \<Rightarrow> exn option"
  fs_write :: "string \<Rightarrow> (exn \<times> nat) option"

text \<open>
  The state the program changes: the GETs issued so far (URL and timeout), the content of
  the files, the lines printed, and the total time spent in \<^verbatim>\<open>sleep\<close>.
\<close>

record world =
  requests :: "(string \<times> nat) list"
  files :: "string \<rightharpoonup> string"
  stdout :: "string list"
  slept :: rat

definition print :: "string \<Rightarrow> world \<Rightarrow> world" where
  "print line w = w\<lparr>stdout := stdout w @ [line]\<rparr>"

definition sleep :: "rat \<Rightarrow> world \<Rightarrow> world" where
  "sleep t w = w\<lparr>slept := slept w + t\<rparr>"

definition session_get :: "env \<Rightarrow> string \<Rightarrow> nat \<Rightarrow> world \<Rightarrow> (exn + response) \<times> world" where
  "session_get env url timeout w =
     (http_get env (length (requests w)) url, w\<lparr>requests := requests w @ [(url, timeout)]\<rparr>)"

section \<open>Constants of the module\<close>

definition KEYWORDS :: "string list" where
  "KEYWORDS = [''software'', ''engineering'', ''gender'', ''diversity'']"

definition FIELDS_OF_STUDY :: string where
  "FIELDS_OF_STUDY = ''Computer Science''"

definition QUERY_INFO_BY_KEYWORDS :: "string list" where
  "QUERY_INFO_BY_KEYWORDS =
     [''url'', ''title'', ''abstract'', ''authors'', ''year'', ''publicationTypes'', ''venue'']"

definition QUERY_INFO_ABOUT_A_PAPER :: "string list" where
  "QUERY_INFO_ABOUT_A_PAPER =
     [''url'', ''title'', ''abstract'', ''authors'', ''year'', ''publicationTypes'', ''citations'',
      ''references'', ''citations.fieldsOfStudy'']"

definition SEEDING_PAPER_DIR :: string where
  "SEEDING_PAPER_DIR = ''seed papers''"

definition SNOWBALLING_PAPER_DIR :: string where
  "SNOWBALLING_PAPER_DIR = ''snowballing papers''"

section \<open>SemanticScholarQueryHelper\<close>

text \<open>The object holds the base address; its session is the environment and the world.\<close>

record SemanticScholarQueryHelper =
  api :: string

definition SemanticScholarQueryHelper_init :: SemanticScholarQueryHelper where
  "SemanticScholarQueryHelper_init = \<lparr>api = ''http://api.semanticscholar.org/graph/v1/paper''\<rparr>"

text \<open>
  The statement \<^verbatim>\<open>with open(save_path, 'w') as f: json.dump(response.json(), f)\<close>:
  the file is opened, which creates it or empties it, then the body is decoded, then the
  text is written. Leaving the block closes the file, also when the block raises.
\<close>

definition save_response :: "env \<Rightarrow> response \<Rightarrow> string \<Rightarrow> world \<Rightarrow> (exn + unit) \<times> world" where
  "save_response env response save_path w =
     (case fs_open env save_path of
        Some e \<Rightarrow> (Inl e, w)
      | None \<Rightarrow>
          (let w1 = w\<lparr>files := (files w)(save_path \<mapsto> [])\<rparr> in
           case json response of
             Inl e \<Rightarrow> (Inl e, w1)
           | Inr obj \<Rightarrow>
               (case fs_write env save_path of
                  Some (e, k) \<Rightarrow>
                    (Inl e, w1\<lparr>files := (files w1)(save_path \<mapsto> take k (json_dumps obj))\<rparr>)
                | None \<Rightarrow>
                    (Inr (), w1\<lparr>files := (files w1)(save_path \<mapsto> json_dumps obj)\<rparr>))))"

text \<open>\<^verbatim>\<open>if save_path:\<close> holds for a string that is not empty; the default is \<^verbatim>\<open>None\<close>.\<close>

fun truthy :: "string option \<Rightarrow> bool" where
  "truthy None = False"
| "truthy (Some s) = (s \<noteq> [])"

text \<open>The body of the \<^verbatim>\<open>try\<close> block of \<^verbatim>\<open>_get\<close>: the first exception ends it.\<close>

definition get_try :: "env \<Rightarrow> string \<Rightarrow> string option \<Rightarrow> world \<Rightarrow> (exn + pyobj) \<times> world" where
  "get_try env url save_path w =
     (let w1 = print (''querying '' @ url) w in
      case session_get env url 30 w1 of
        (Inl e, w2) \<Rightarrow> (Inl e, w2)
      | (Inr response, w2) \<Rightarrow>
          (case (if truthy save_path then save_response env response (the save_path) w2
                 else (Inr (), w2)) of
             (Inl e, w3) \<Rightarrow> (Inl e, w3)
           | (Inr u, w3) \<Rightarrow>
               (let w4 = sleep 3.5 w3 in
                case json response of
                  Inl e \<Rightarrow> (Inl e, w4)
                | Inr obj \<Rightarrow> (Inr obj, w4))))"

text \<open>
  \<^verbatim>\<open>_get\<close> (an identifier cannot start with an underscore): the handler
  \<^verbatim>\<open>except Exception as e: print(e)\<close> ends the call, which then returns \<^verbatim>\<open>None\<close>.
\<close>

definition query_get :: "env \<Rightarrow> string \<Rightarrow> string option \<Rightarrow> world \<Rightarrow> pyobj \<times> world" where
  "query_get env url save_path w =
     (case get_try env url save_path w of
        (Inl e, w') \<Rightarrow> (PNone, print (str_exn e) w')
      | (Inr obj, w') \<Rightarrow> (obj, w'))"

text \<open>
  \<^verbatim>\<open>get_top_n_paper_ids\<close>. The loop appends \<^verbatim>\<open>paper['paperId']\<close> for each element and
  stops at the first exception.
\<close>

definition search_url :: "SemanticScholarQueryHelper \<Rightarrow> int \<Rightarrow> string list \<Rightarrow> string \<Rightarrow> string" where
  "search_url self n keywords field_of_study =
     api self @ ''/search?query='' @ str_join ''+'' keywords @ ''&offset=10&limit='' @ str_int n
       @ ''&fieldsOfStudy='' @ field_of_study @ ''&fields='' @ str_join '','' QUERY_INFO_BY_KEYWORDS"

fun append_paper_ids :: "pyobj list \<Rightarrow> pyobj list \<Rightarrow> exn + pyobj list" where
  "append_paper_ids paper_ids [] = Inr paper_ids"
| "append_paper_ids paper_ids (paper # rest) =
     (case subscript paper ''paperId'' of
        Inl e \<Rightarrow> Inl e
      | Inr pid \<Rightarrow> append_paper_ids (paper_ids @ [pid]) rest)"

definition get_top_n_paper_ids ::
  "env \<Rightarrow> SemanticScholarQueryHelper \<Rightarrow> int \<Rightarrow> string list \<Rightarrow> string \<Rightarrow> string option \<Rightarrow> world
     \<Rightarrow> (exn + pyobj list) \<times> world" where
  "get_top_n_paper_ids env self n keywords field_of_study save_path w =
     (let url = search_url self n keywords field_of_study;
          (top_n_papers_json, w') = query_get env url save_path w
      in case subscript top_n_papers_json ''data'' of
           Inl e \<Rightarrow> (Inl e, w')
         | Inr data \<Rightarrow>
             (case py_iter data of
                Inl e \<Rightarrow> (Inl e, w')
              | Inr papers \<Rightarrow> (append_paper_ids [] papers, w')))"

definition metadata_url :: "SemanticScholarQueryHelper \<Rightarrow> pyobj \<Rightarrow> string list \<Rightarrow> string" where
  "metadata_url self paper_id query_parameters =
     api self @ ''/'' @ py_str paper_id @ ''?fields='' @ str_join '','' query_parameters"

definition get_metadata ::
  "env \<Rightarrow> SemanticScholarQueryHelper \<Rightarrow> pyobj \<Rightarrow> string list \<Rightarrow> string option \<Rightarrow> world
     \<Rightarrow> pyobj \<times> world" where
  "get_metadata env self paper_id query_parameters save_path w =
     query_get env (metadata_url self paper_id query_parameters) save_path w"

section \<open>SeedPaper\<close>

text \<open>The fields \<^verbatim>\<open>_id\<close>, \<^verbatim>\<open>_query\<close>, \<^verbatim>\<open>_citations\<close> and \<^verbatim>\<open>_references\<close> of the object.\<close>

record SeedPaper =
  f_id :: pyobj
  f_query :: SemanticScholarQueryHelper
  f_citations :: "pyobj list"
  f_references :: "pyobj list"

definition citations :: "SeedPaper \<Rightarrow> pyobj list" where
  "citations self = f_citations self"

definition references :: "SeedPaper \<Rightarrow> pyobj list" where
  "references self = f_references self"

text \<open>The comprehension \<^verbatim>\<open>[p['paperId'] for p in xs]\<close>.\<close>

fun paper_ids_of :: "pyobj list \<Rightarrow> exn + pyobj list" where
  "paper_ids_of [] = Inr []"
| "paper_ids_of (p # ps) =
     (case subscript p ''paperId'' of
        Inl e \<Rightarrow> Inl e
      | Inr pid \<Rightarrow> (case paper_ids_of ps of Inl e \<Rightarrow> Inl e | Inr pids \<Rightarrow> Inr (pid # pids)))"

definition id_list :: "pyobj \<Rightarrow> string \<Rightarrow> exn + pyobj list" where
  "id_list metadata key =
     (case subscript metadata key of
        Inl e \<Rightarrow> Inl e
      | Inr xs \<Rightarrow> (case py_iter xs of Inl e \<Rightarrow> Inl e | Inr ps \<Rightarrow> paper_ids_of ps))"

definition seed_save_path :: "pyobj \<Rightarrow> string" where
  "seed_save_path paper_id = ''./output/'' @ SEEDING_PAPER_DIR @ ''/'' @ py_str paper_id @ ''.json''"

definition SeedPaper_init ::
  "env \<Rightarrow> pyobj \<Rightarrow> SemanticScholarQueryHelper \<Rightarrow> world \<Rightarrow> (exn + SeedPaper) \<times> world" where
  "SeedPaper_init env paper_id query w =
     (let save_path = seed_save_path paper_id;
          (metadata, w') = get_metadata env query paper_id QUERY_INFO_ABOUT_A_PAPER (Some save_path) w
      in case id_list metadata ''citations'' of
           Inl e \<Rightarrow> (Inl e, w')
         | Inr cs \<Rightarrow>
             (case id_list metadata ''references'' of
                Inl e \<Rightarrow> (Inl e, w')
              | Inr rs \<Rightarrow>
                  (Inr \<lparr>f_id = paper_id, f_query = query, f_citations = cs, f_references = rs\<rparr>, w')))"

text \<open>
  \<^verbatim>\<open>snowballing\<close>: the two loops have the same body. The object is passed along with the
  world, as a method sees it; the value of each fetch is dropped.
\<close>

definition snowball_save_path :: "pyobj \<Rightarrow> string" where
  "snowball_save_path paper_id =
     ''./output/'' @ SNOWBALLING_PAPER_DIR @ ''/'' @ py_str paper_id @ ''.json''"

fun snowball_loop :: "env \<Rightarrow> pyobj list \<Rightarrow> SeedPaper \<times> world \<Rightarrow> SeedPaper \<times> world" where
  "snowball_loop env [] (self, w) = (self, w)"
| "snowball_loop env (paper_id # ids) (self, w) =
     (let save_path = snowball_save_path paper_id;
          (ignored, w') = get_metadata env (f_query self) paper_id QUERY_INFO_ABOUT_A_PAPER
                            (Some save_path) w
      in snowball_loop env ids (self, w'))"

definition snowballing :: "env \<Rightarrow> SeedPaper \<times> world \<Rightarrow> SeedPaper \<times> world" where
  "snowballing env sw =
     (let (self, w) = sw;
          (self1, w1) = snowball_loop env (references self) (self, w)
      in snowball_loop env (citations self1) (self1, w1))"

section \<open>Reading the text back\<close>

text \<open>
  The reader of the format, as \<^verbatim>\<open>json.load\<close> reads a file: white space between tokens,
  the literals, integers without a leading zero, strings with their escapes, arrays and
  objects, where a key that comes again replaces the value and keeps its place.
  A text with a floating point number or with a code point of 256 or more is outside
  the model and is not read. The natural number is fuel: one unit for each nested call;
  \<open>json_loads\<close> gives as much as the text is long, and a text that \<^verbatim>\<open>json.dump\<close> wrote
  never needs more.
\<close>

definition is_ws :: "char \<Rightarrow> bool" where
  "is_ws c = (c = CHR '' '' \<or> c = CHR 0x09 \<or> c = CHR 0x0A \<or> c = CHR 0x0D)"

definition skip_ws :: "string \<Rightarrow> string" where
  "skip_ws s = dropWhile is_ws s"














text \<open>What may follow a value in a text, and the fuel that reading a value back takes.\<close>

definition value_end :: "string \<Rightarrow> bool" where
  "value_end rest =
     (case rest of [] \<Rightarrow> True | c # cs \<Rightarrow> c = CHR '','' \<or> c = CHR '']'' \<or> c = CHR ''}'')"


section \<open>Definitions that follow the specification\<close>

text \<open>
  Snowball expansion in the words of the specification: one fetch for each identifier,
  in order, with the full field set, saved under the snowballing directory in a file named
  by the identifier; the value of the fetch is dropped.
\<close>

definition fetch_each :: "env \<Rightarrow> SemanticScholarQueryHelper \<Rightarrow> pyobj list \<Rightarrow> world \<Rightarrow> world" where
  "fetch_each env query ids w =
     fold (\<lambda>paper_id w. snd (get_metadata env query paper_id
                                [''url'', ''title'', ''abstract'', ''authors'', ''year'',
                                 ''publicationTypes'', ''citations'', ''references'',
                                 ''citations.fieldsOfStudy'']
                                (Some (''./output/snowballing papers/'' @ py_str paper_id @ ''.json''))
                                w))
          ids w"

text \<open>The same environment with the status code of every response replaced.\<close>

definition with_status :: "nat \<Rightarrow> env \<Rightarrow> env" where
  "with_status s env =
     env\<lparr>http_get := (\<lambda>k url. case http_get env k url of
                                 Inl e \<Rightarrow> Inl e
                               | Inr r \<Rightarrow> Inr (r\<lparr>status_code := s\<rparr>))\<rparr>"

section \<open>Sample environments\<close>

definition world0 :: world where
  "world0 = \<lparr>requests = [], files = Map.empty, stdout = [], slept = 0\<rparr>"

definition env_timeout :: env where
  "env_timeout =
     \<lparr>http_get = (\<lambda>k url. Inl (Timeout ''Read timed out. (read timeout=30)'')),
      fs_open = (\<lambda>p. None), fs_write = (\<lambda>p. None)\<rparr>"

definition env_reply :: "response \<Rightarrow> env" where
  "env_reply r = \<lparr>http_get = (\<lambda>k url. Inr r), fs_open = (\<lambda>p. None), fs_write = (\<lambda>p. None)\<rparr>"

definition response_undecodable :: response where
  "response_undecodable =
     \<lparr>status_code = 502, json = Inl (JSONDecodeError ''Expecting value: line 1 column 1 (char 0)'')\<rparr>"

definition world_old_file :: world where
  "world_old_file = world0\<lparr>files := [''out.json'' \<mapsto> ''{}'']\<rparr>"

definition response_404 :: response where
  "response_404 = \<lparr>status_code = 404, json = Inr (PDict [(''error'', PStr ''Paper not found'')])\<rparr>"

definition env_no_dir :: env where
  "env_no_dir =
     \<lparr>http_get = (\<lambda>k url. Inr response_404),
      fs_open = (\<lambda>p. Some (OSError ''[Errno 2] No such file or directory'')),
      fs_write = (\<lambda>p. None)\<rparr>"

definition env_disk_full :: env where
  "env_disk_full =
     \<lparr>http_get = (\<lambda>k url. Inr response_404),
      fs_open = (\<lambda>p. None),
      fs_write = (\<lambda>p. Some (OSError ''[Errno 28] No space left on device'', 0))\<rparr>"

definition mock_search :: pyobj where
  "mock_search = PDict [(''data'', PList [PDict [(''paperId'', PStr ''A1'')], PDict [(''paperId'', PStr ''B2'')]])]"

definition mock_search_long :: pyobj where
  "mock_search_long =
     PDict [(''data'', PList [PDict [(''paperId'', PStr ''A1'')], PDict [(''paperId'', PStr '''')],
                              PDict [(''paperId'', PNone)]])]"

definition mock_metadata :: pyobj where
  "mock_metadata =
     PDict [(''citations'', PList [PDict [(''paperId'', PStr ''C1'')]]),
            (''references'', PList [PDict [(''paperId'', PStr ''R1'')]])]"

definition nonempty_str :: "pyobj \<Rightarrow> bool" where
  "nonempty_str x = (case x of PStr s \<Rightarrow> s \<noteq> [] | _ \<Rightarrow> False)"

definition mock_seed :: SeedPaper where
  "mock_seed = \<lparr>f_id = PStr ''A1'', f_query = SemanticScholarQueryHelper_init,
                 f_citations = [PStr ''C1''], f_references = [PStr ''R1'']\<rparr>"

definition response_empty_list :: response where
  "response_empty_list = \<lparr>status_code = 200, json = Inr (PList [])\<rparr>"

section \<open>The paths through \<^verbatim>\<open>_get\<close>\<close>

lemma get_try_transport:
  assumes "http_get env (length (requests w)) url = Inl e"
  shows "get_try env url save_path w =
           (Inl e, w\<lparr>requests := requests w @ [(url, 30)], stdout := stdout w @ [''querying '' @ url]\<rparr>)"
  using assms by (simp add: get_try_def session_get_def print_def)

lemma get_try_no_save:
  assumes "http_get env (length (requests w)) url = Inr r" "\<not> truthy save_path"
  shows "get_try env url save_path w =
           (json r, w\<lparr>requests := requests w @ [(url, 30)], stdout := stdout w @ [''querying '' @ url],
                     slept := slept w + 3.5\<rparr>)"
  using assms by (cases "json r") (simp_all add: get_try_def session_get_def print_def sleep_def Let_def)

lemma get_try_open_fails:
  assumes "http_get env (length (requests w)) url = Inr r" "p \<noteq> []" "fs_open env p = Some e"
  shows "get_try env url (Some p) w =
           (Inl e, w\<lparr>requests := requests w @ [(url, 30)], stdout := stdout w @ [''querying '' @ url]\<rparr>)"
  using assms by (simp add: get_try_def session_get_def print_def sleep_def save_response_def Let_def)

lemma get_try_decode_fails:
  assumes "http_get env (length (requests w)) url = Inr r" "p \<noteq> []" "fs_open env p = None"
    "json r = Inl e"
  shows "get_try env url (Some p) w =
           (Inl e, w\<lparr>requests := requests w @ [(url, 30)], stdout := stdout w @ [''querying '' @ url],
                     files := (files w)(p \<mapsto> [])\<rparr>)"
  using assms by (simp add: get_try_def session_get_def print_def sleep_def save_response_def Let_def)

lemma get_try_write_fails:
  assumes "http_get env (length (requests w)) url = Inr r" "p \<noteq> []" "fs_open env p = None"
    "json r = Inr obj" "fs_write env p = Some (e, k)"
  shows "get_try env url (Some p) w =
           (Inl e, w\<lparr>requests := requests w @ [(url, 30)], stdout := stdout w @ [''querying '' @ url],
                     files := (files w)(p \<mapsto> take k (json_dumps obj))\<rparr>)"
  using assms by (simp add: get_try_def session_get_def print_def sleep_def save_response_def Let_def)

lemma get_try_saved:
  assumes "http_get env (length (requests w)) url = Inr r" "p \<noteq> []" "fs_open env p = None"
    "json r = Inr obj" "fs_write env p = None"
  shows "get_try env url (Some p) w =
           (Inr obj, w\<lparr>requests := requests w @ [(url, 30)], stdout := stdout w @ [''querying '' @ url],
                     files := (files w)(p \<mapsto> json_dumps obj), slept := slept w + 3.5\<rparr>)"
  using assms by (simp add: get_try_def session_get_def print_def sleep_def save_response_def Let_def)

lemma query_get_requests:
  "requests (snd (query_get env url save_path w)) = requests w @ [(url, 30)]"
  by (simp add: query_get_def get_try_def session_get_def print_def sleep_def save_response_def Let_def
      split: sum.splits option.splits prod.splits)

lemma query_get_files:
  "files (snd (query_get env url save_path w)) =
     (case http_get env (length (requests w)) url of
        Inl e \<Rightarrow> files w
      | Inr r \<Rightarrow>
          if \<not> truthy save_path then files w
          else (case fs_open env (the save_path) of
                  Some e \<Rightarrow> files w
                | None \<Rightarrow>
                    (case json r of
                       Inl e \<Rightarrow> (files w)(the save_path \<mapsto> [])
                     | Inr obj \<Rightarrow>
                         (case fs_write env (the save_path) of
                            Some (e, k) \<Rightarrow> (files w)(the save_path \<mapsto> take k (json_dumps obj))
                          | None \<Rightarrow> (files w)(the save_path \<mapsto> json_dumps obj)))))"
  by (simp add: query_get_def get_try_def session_get_def print_def sleep_def save_response_def Let_def
      split: sum.splits option.splits prod.splits)

lemma query_get_decoded:
  assumes "query_get env url save_path w = (obj, w')" "obj \<noteq> PNone"
  shows "\<exists>r. http_get env (length (requests w)) url = Inr r \<and> json r = Inr obj"
  using assms
  by (auto simp: query_get_def get_try_def session_get_def print_def sleep_def Let_def
      split: sum.splits prod.splits if_splits)

lemma get_try_with_status:
  "get_try (with_status s env) url save_path w = get_try env url save_path w"
  by (simp add: get_try_def session_get_def print_def sleep_def save_response_def Let_def
      with_status_def split: sum.splits option.splits prod.splits)


section \<open>Transport errors\<close>

text \<open>
  C7. When the GET raises (a connection error, or the timeout of 30 that was passed to it),
  \<^verbatim>\<open>_get\<close> does not raise: it returns \<^verbatim>\<open>None\<close>, it has printed the exception after the
  \<^verbatim>\<open>querying\<close> line, and it has issued this one GET and no other; the files and the time
  slept are as before.
\<close>

theorem transport_error_absorbed:
  assumes "http_get env (length (requests w)) url = Inl e"
  shows "query_get env url save_path w =
           (PNone, w\<lparr>requests := requests w @ [(url, 30)],
                     stdout := stdout w @ [''querying '' @ url, str_exn e]\<rparr>)"
  by (simp add: query_get_def get_try_transport [OF assms] print_def)

theorem transport_error_absorbed_witness:
  "query_get env_timeout ''http://x/1?fields=url'' (Some ''out.json'') world0 =
     (PNone, \<lparr>requests = [(''http://x/1?fields=url'', 30)], files = Map.empty,
              stdout = [''querying http://x/1?fields=url'', ''Read timed out. (read timeout=30)''],
              slept = 0\<rparr>)"
  using transport_error_absorbed [of env_timeout world0 "''http://x/1?fields=url''"
      "Timeout ''Read timed out. (read timeout=30)''" "Some ''out.json''"]
  by (simp add: env_timeout_def world0_def)

section \<open>The delay\<close>

text \<open>
  The time a call has slept, in every case: \<^verbatim>\<open>sleep(3.5)\<close> stands inside the \<^verbatim>\<open>try\<close>
  block, after the GET and after the save, so it is reached exactly when the GET returned a
  response and the save, if a save path was given, raised nothing.
\<close>

lemma query_get_slept:
  "slept (snd (query_get env url save_path w)) =
     slept w +
       (case http_get env (length (requests w)) url of
          Inl e \<Rightarrow> 0
        | Inr r \<Rightarrow>
            if truthy save_path \<and>
               (fs_open env (the save_path) \<noteq> None \<or> isl (json r) \<or> fs_write env (the save_path) \<noteq> None)
            then 0 else 3.5)"
  by (simp add: query_get_def get_try_def session_get_def print_def sleep_def save_response_def Let_def
      split: sum.splits option.splits prod.splits)

text \<open>
  C1. The claim is what the comment above \<^verbatim>\<open>sleep(3.5)\<close> asks for, at most 100 requests in
  5 minutes, and the code misses it on a failed call. Here the service answers every GET
  and the directory of the save path is missing: the call returns \<^verbatim>\<open>None\<close> and has not
  slept, and snowballing over two identifiers issues its two GETs without any delay. The
  paths of the code disagree with each other: a body that cannot be decoded is followed by
  the delay when no save path is given, and is not when one is given.
\<close>

theorem delay_skipped_on_failed_call:
  "fst (query_get env_no_dir ''http://x/1?fields=url'' (Some ''./output/seed papers/1.json'') world0)
     = PNone
   \<and> slept (snd (query_get env_no_dir ''http://x/1?fields=url''
                    (Some ''./output/seed papers/1.json'') world0)) = 0
   \<and> length (requests (snd (snowballing env_no_dir (mock_seed, world0)))) = 2
   \<and> slept (snd (snowballing env_no_dir (mock_seed, world0))) = 0
   \<and> slept (snd (query_get (env_reply response_undecodable) ''http://x/1?fields=url'' None world0)) = 3.5
   \<and> slept (snd (query_get (env_reply response_undecodable) ''http://x/1?fields=url''
                    (Some ''./output/seed papers/1.json'') world0)) = 0"
  by (simp add: snowballing_def mock_seed_def references_def citations_def get_metadata_def
      snowball_save_path_def SNOWBALLING_PAPER_DIR_def response_404_def query_get_def get_try_def session_get_def print_def sleep_def save_response_def
      Let_def env_no_dir_def env_reply_def response_undecodable_def world0_def)

section \<open>The file at the save path\<close>

text \<open>
  C2, as stated, fails: the file is opened for writing before the body is decoded, so a
  response whose body cannot be decoded leaves the file at the save path empty, and a
  file that was there has lost its content.
\<close>

theorem failed_decode_empties_file:
  "\<not> (files (snd (query_get (env_reply response_undecodable) ''http://x/1?fields=url''
                    (Some ''out.json'') world_old_file)) ''out.json''
        = files world_old_file ''out.json'')"
  by (simp add: query_get_def get_try_def session_get_def print_def sleep_def save_response_def Let_def
      env_reply_def response_undecodable_def world_old_file_def world0_def)

text \<open>
  C2, amended. When the GET raises (network error, timeout), no file is created or changed.
  Text of a response reaches a file only at the save path and only after the body was
  decoded: it is the text of the decoded body, or a part of it from the start when the
  write raises. When the body cannot be decoded and the file could be opened, the file at
  the save path is left empty.
\<close>

theorem save_path_written_only_after_decode:
  "(\<forall>e. http_get env (length (requests w)) url = Inl e \<longrightarrow>
        files (snd (query_get env url save_path w)) = files w)
   \<and> (\<forall>p body. files (snd (query_get env url save_path w)) p = Some body \<and> body \<noteq> [] \<and>
          files w p \<noteq> Some body \<longrightarrow>
          save_path = Some p \<and>
          (\<exists>r obj k. http_get env (length (requests w)) url = Inr r \<and> json r = Inr obj \<and>
             body = take k (json_dumps obj)))
   \<and> (\<forall>r e p. http_get env (length (requests w)) url = Inr r \<and> json r = Inl e \<and>
          save_path = Some p \<and> p \<noteq> [] \<and> fs_open env p = None \<longrightarrow>
          files (snd (query_get env url save_path w)) = (files w)(p \<mapsto> []))"
proof (intro conjI allI impI)
  fix e assume "http_get env (length (requests w)) url = Inl e"
  then show "files (snd (query_get env url save_path w)) = files w"
    by (simp add: query_get_files)
next
  fix r e p
  assume "http_get env (length (requests w)) url = Inr r \<and> json r = Inl e \<and>
          save_path = Some p \<and> p \<noteq> [] \<and> fs_open env p = None"
  then show "files (snd (query_get env url save_path w)) = (files w)(p \<mapsto> [])"
    by (simp add: query_get_files)
next
  fix p body
  assume a: "files (snd (query_get env url save_path w)) p = Some body \<and> body \<noteq> [] \<and>
          files w p \<noteq> Some body"
  then show "save_path = Some p"
    by (cases save_path)
       (auto simp: query_get_files split: sum.splits option.splits if_splits prod.splits)
  from a show "\<exists>r obj k. http_get env (length (requests w)) url = Inr r \<and> json r = Inr obj \<and>
             body = take k (json_dumps obj)"
    apply (cases save_path)
    apply (auto simp: query_get_files split: sum.splits option.splits if_splits prod.splits)
    apply (metis take_all order_refl)
    done
qed

theorem save_path_written_only_after_decode_witness:
  "files (snd (query_get env_timeout ''http://x/1?fields=url'' (Some ''out.json'') world_old_file))
     = files world_old_file
   \<and> files (snd (query_get (env_reply response_undecodable) ''http://x/1?fields=url''
                   (Some ''out.json'') world_old_file))
     = (files world_old_file)(''out.json'' \<mapsto> [])
   \<and> files (snd (query_get (env_reply response_empty_list) ''http://x/1?fields=url''
                   (Some ''out.json'') world_old_file)) ''out.json''
     = Some ''[]''
   \<and> files world_old_file ''out.json'' \<noteq> Some ''[]''
   \<and> (\<exists>r obj k. http_get (env_reply response_empty_list) (length (requests world_old_file))
                     ''http://x/1?fields=url'' = Inr r \<and> json r = Inr obj \<and>
                   ''[]'' = take k (json_dumps obj))"
proof -
  let ?u = "''http://x/1?fields=url''"
  let ?p = "''out.json''"
  have h1: "http_get env_timeout (length (requests world_old_file)) ?u
              = Inl (Timeout ''Read timed out. (read timeout=30)'')"
    by (simp add: env_timeout_def)
  have h2: "http_get (env_reply response_undecodable) (length (requests world_old_file)) ?u
              = Inr response_undecodable
            \<and> json response_undecodable = Inl (JSONDecodeError ''Expecting value: line 1 column 1 (char 0)'')
            \<and> Some ?p = Some ?p \<and> ?p \<noteq> [] \<and> fs_open (env_reply response_undecodable) ?p = None"
    by (simp add: env_reply_def response_undecodable_def)
  have h3: "files (snd (query_get (env_reply response_empty_list) ?u (Some ?p) world_old_file)) ?p
              = Some ''[]'' \<and> ''[]'' \<noteq> [] \<and> files world_old_file ?p \<noteq> Some ''[]''"
    by (simp add: query_get_files env_reply_def response_empty_list_def world_old_file_def world0_def)
  from h1 save_path_written_only_after_decode [of env_timeout world_old_file ?u "Some ?p"]
  have c1: "files (snd (query_get env_timeout ?u (Some ?p) world_old_file)) = files world_old_file"
    by blast
  from h2 save_path_written_only_after_decode [of "env_reply response_undecodable" world_old_file ?u
        "Some ?p"]
  have c2: "files (snd (query_get (env_reply response_undecodable) ?u (Some ?p) world_old_file))
              = (files world_old_file)(?p \<mapsto> [])"
    by blast
  from h3 save_path_written_only_after_decode [of "env_reply response_empty_list" world_old_file ?u
        "Some ?p"]
  have c3: "\<exists>r obj k. http_get (env_reply response_empty_list) (length (requests world_old_file)) ?u
                = Inr r \<and> json r = Inr obj \<and> ''[]'' = take k (json_dumps obj)"
    by blast
  from c1 c2 c3 h3 show ?thesis by blast
qed

section \<open>The status code\<close>

text \<open>
  C9. \<^verbatim>\<open>_get\<close> never looks at the status code: replacing the status code of every response
  changes nothing in what a call returns and does. A response whose body can be decoded is
  therefore a success whatever its status: the decoded body is returned, and written to the
  save path when one is given and the file can be written.
\<close>

theorem status_code_ignored:
  "query_get (with_status s env) url save_path w = query_get env url save_path w
   \<and> (\<forall>r obj. http_get env (length (requests w)) url = Inr r \<and> json r = Inr obj \<and>
         (truthy save_path \<longrightarrow>
            fs_open env (the save_path) = None \<and> fs_write env (the save_path) = None) \<longrightarrow>
         query_get env url save_path w =
           (obj, w\<lparr>requests := requests w @ [(url, 30)],
                   stdout := stdout w @ [''querying '' @ url],
                   files := (if truthy save_path then (files w)(the save_path \<mapsto> json_dumps obj)
                             else files w),
                   slept := slept w + 3.5\<rparr>))"
proof (intro conjI allI impI)
  show "query_get (with_status s env) url save_path w = query_get env url save_path w"
    by (simp add: query_get_def get_try_with_status)
next
  fix r obj
  assume a: "http_get env (length (requests w)) url = Inr r \<and> json r = Inr obj \<and>
         (truthy save_path \<longrightarrow>
            fs_open env (the save_path) = None \<and> fs_write env (the save_path) = None)"
  show "query_get env url save_path w =
           (obj, w\<lparr>requests := requests w @ [(url, 30)],
                   stdout := stdout w @ [''querying '' @ url],
                   files := (if truthy save_path then (files w)(the save_path \<mapsto> json_dumps obj)
                             else files w),
                   slept := slept w + 3.5\<rparr>)"
  proof (cases "truthy save_path")
    case False
    with a show ?thesis by (simp add: query_get_def get_try_no_save)
  next
    case True
    then obtain p where p: "save_path = Some p" "p \<noteq> []" by (cases save_path) auto
    with a show ?thesis by (simp add: query_get_def get_try_saved)
  qed
qed

theorem status_code_ignored_witness:
  "query_get (env_reply response_404) ''http://x/1?fields=url'' (Some ''out.json'') world0 =
     (PDict [(''error'', PStr ''Paper not found'')],
      \<lparr>requests = [(''http://x/1?fields=url'', 30)],
       files = [''out.json'' \<mapsto> json_dumps (PDict [(''error'', PStr ''Paper not found'')])],
       stdout = [''querying http://x/1?fields=url''], slept = 3.5\<rparr>)
   \<and> query_get (with_status 200 (env_reply response_404)) ''http://x/1?fields=url''
        (Some ''out.json'') world0
     = query_get (env_reply response_404) ''http://x/1?fields=url'' (Some ''out.json'') world0"
  using status_code_ignored [of 200 "env_reply response_404" "''http://x/1?fields=url''"
      "Some ''out.json''" world0]
  by (simp add: env_reply_def response_404_def world0_def)

section \<open>A save that raises\<close>

text \<open>
  C10. When the GET returned a response and a save path is given, and opening the file
  raises or writing the text raises, the handler of \<^verbatim>\<open>_get\<close> catches the exception: the
  call returns \<^verbatim>\<open>None\<close>, has printed the exception, has not slept, and has issued its one
  GET. The caller gets the same value as from a call whose GET raised.
\<close>

theorem failed_save_absorbed:
  assumes "http_get env (length (requests w)) url = Inr r"
    and "p \<noteq> []"
    and "fs_open env p = Some e \<or>
         (fs_open env p = None \<and> json r = Inr obj \<and> fs_write env p = Some (e, k))"
  shows "fst (query_get env url (Some p) w) = PNone
         \<and> slept (snd (query_get env url (Some p) w)) = slept w
         \<and> stdout (snd (query_get env url (Some p) w)) = stdout w @ [''querying '' @ url, str_exn e]
         \<and> requests (snd (query_get env url (Some p) w)) = requests w @ [(url, 30)]
         \<and> (\<forall>env' e'. http_get env' (length (requests w)) url = Inl e' \<longrightarrow>
               fst (query_get env' url (Some p) w) = fst (query_get env url (Some p) w))"
  using assms(3)
proof
  assume "fs_open env p = Some e"
  then show ?thesis
    using assms(1,2) by (simp add: query_get_def get_try_open_fails get_try_transport print_def)
next
  assume "fs_open env p = None \<and> json r = Inr obj \<and> fs_write env p = Some (e, k)"
  then show ?thesis
    using assms(1,2) by (simp add: query_get_def get_try_write_fails get_try_transport print_def)
qed

theorem failed_save_absorbed_witness:
  "fst (query_get env_no_dir ''http://x/1?fields=url'' (Some ''./output/seed papers/1.json'') world0) = PNone
   \<and> slept (snd (query_get env_no_dir ''http://x/1?fields=url''
                    (Some ''./output/seed papers/1.json'') world0)) = 0
   \<and> stdout (snd (query_get env_no_dir ''http://x/1?fields=url''
                     (Some ''./output/seed papers/1.json'') world0))
       = [''querying http://x/1?fields=url'', ''[Errno 2] No such file or directory'']
   \<and> fst (query_get env_disk_full ''http://x/1?fields=url'' (Some ''./output/seed papers/1.json'') world0)
       = PNone
   \<and> slept (snd (query_get env_disk_full ''http://x/1?fields=url''
                    (Some ''./output/seed papers/1.json'') world0)) = 0"
  using failed_save_absorbed [of env_no_dir world0 "''http://x/1?fields=url''" response_404
          "''./output/seed papers/1.json''" "OSError ''[Errno 2] No such file or directory''"]
    failed_save_absorbed [of env_disk_full world0 "''http://x/1?fields=url''" response_404
          "''./output/seed papers/1.json''" "OSError ''[Errno 28] No space left on device''"
          "PDict [(''error'', PStr ''Paper not found'')]" 0]
  by (simp add: env_no_dir_def env_disk_full_def response_404_def world0_def)

section \<open>The search\<close>

lemma append_paper_ids_map:
  "append_paper_ids acc papers = Inr ids \<Longrightarrow>
     \<exists>new. ids = acc @ new \<and> map (\<lambda>p. subscript p ''paperId'') papers = map Inr new"
proof (induction papers arbitrary: acc)
  case Nil
  then show ?case by simp
next
  case (Cons p ps)
  then obtain pid where pid: "subscript p ''paperId'' = Inr pid"
    and rest: "append_paper_ids (acc @ [pid]) ps = Inr ids"
    by (auto split: sum.splits)
  from Cons.IH [OF rest] obtain new where "ids = (acc @ [pid]) @ new"
    "map (\<lambda>p. subscript p ''paperId'') ps = map Inr new" by blast
  with pid show ?case by (intro exI [of _ "pid # new"]) simp
qed

text \<open>
  C3, as stated, fails: the loop takes what the service sent and neither cuts the list at
  \<open>n\<close> nor looks at the identifiers. With \<open>n = 2\<close> and three records in the data list, of
  which one has an empty identifier and one has \<^verbatim>\<open>null\<close>, all three come back.
\<close>

theorem top_n_neither_cut_nor_checked:
  "fst (get_top_n_paper_ids (env_reply \<lparr>status_code = 200, json = Inr mock_search_long\<rparr>)
          SemanticScholarQueryHelper_init 2 KEYWORDS FIELDS_OF_STUDY None world0)
     = Inr [PStr ''A1'', PStr '''', PNone]
   \<and> \<not> length [PStr ''A1'', PStr '''', PNone] \<le> (2::nat)
   \<and> \<not> list_all nonempty_str [PStr ''A1'', PStr '''', PNone]"
  by (simp add: get_top_n_paper_ids_def query_get_def get_try_def session_get_def print_def sleep_def
      Let_def env_reply_def mock_search_long_def world0_def nonempty_str_def)

text \<open>
  C3, amended. A search call that succeeds returns the \<^verbatim>\<open>paperId\<close> value of every record
  of the data list of the decoded response, in the order of that list, so the returned
  list is as long as the data list; it is at most \<open>n\<close> long and made of strings that are
  not empty only when the service sent at most \<open>n\<close> records with such identifiers. For the
  response \<^verbatim>\<open>{"data": [{"paperId": "A1"}, {"paperId": "B2"}]}\<close> with \<open>n = 2\<close> and no save
  path it returns \<^verbatim>\<open>["A1", "B2"]\<close>.
\<close>

theorem top_n_paper_ids_follow_data:
  "(\<forall>ids w'. get_top_n_paper_ids env self n keywords field_of_study save_path w = (Inr ids, w') \<longrightarrow>
      (\<exists>r top data papers.
          http_get env (length (requests w)) (search_url self n keywords field_of_study) = Inr r \<and>
          json r = Inr top \<and>
          query_get env (search_url self n keywords field_of_study) save_path w = (top, w') \<and>
          subscript top ''data'' = Inr data \<and> py_iter data = Inr papers \<and>
          (\<forall>records. data = PList records \<longrightarrow> papers = records) \<and>
          map (\<lambda>p. subscript p ''paperId'') papers = map Inr ids \<and>
          length ids = length papers))
   \<and> (\<forall>r. http_get env (length (requests w)) (search_url self 2 keywords field_of_study) = Inr r \<and>
          json r = Inr mock_search \<longrightarrow>
          fst (get_top_n_paper_ids env self 2 keywords field_of_study None w)
            = Inr [PStr ''A1'', PStr ''B2''])"
proof (intro conjI allI impI)
  fix ids w'
  let ?url = "search_url self n keywords field_of_study"
  assume a: "get_top_n_paper_ids env self n keywords field_of_study save_path w = (Inr ids, w')"
  obtain top w1 where q: "query_get env ?url save_path w = (top, w1)"
    by (cases "query_get env ?url save_path w")
  from a q obtain data where d: "subscript top ''data'' = Inr data"
    by (auto simp: get_top_n_paper_ids_def split: sum.splits)
  from a q d obtain papers where p: "py_iter data = Inr papers"
    by (auto simp: get_top_n_paper_ids_def split: sum.splits)
  from a q d p have r: "append_paper_ids [] papers = Inr ids" and w: "w1 = w'"
    by (auto simp: get_top_n_paper_ids_def)
  from append_paper_ids_map [OF r] have m: "map (\<lambda>p. subscript p ''paperId'') papers = map Inr ids"
    by simp
  then have l: "length papers = length ids" by (metis length_map)
  from d have "top \<noteq> PNone" by auto
  with q obtain resp where resp: "http_get env (length (requests w)) ?url = Inr resp"
    "json resp = Inr top"
    by (blast dest: query_get_decoded)
  from p have pl: "\<forall>records. data = PList records \<longrightarrow> papers = records" by auto
  from resp q d p m l w pl
  show "\<exists>r top data papers.
          http_get env (length (requests w)) ?url = Inr r \<and>
          json r = Inr top \<and>
          query_get env ?url save_path w = (top, w') \<and>
          subscript top ''data'' = Inr data \<and> py_iter data = Inr papers \<and>
          (\<forall>records. data = PList records \<longrightarrow> papers = records) \<and>
          map (\<lambda>p. subscript p ''paperId'') papers = map Inr ids \<and>
          length ids = length papers"
    by (intro exI [of _ resp] exI [of _ top] exI [of _ data] exI [of _ papers]) simp
next
  fix r
  assume a: "http_get env (length (requests w)) (search_url self 2 keywords field_of_study) = Inr r \<and>
          json r = Inr mock_search"
  then have "fst (query_get env (search_url self 2 keywords field_of_study) None w) = mock_search"
    by (simp add: query_get_def get_try_no_save)
  then show "fst (get_top_n_paper_ids env self 2 keywords field_of_study None w)
            = Inr [PStr ''A1'', PStr ''B2'']"
    by (cases "query_get env (search_url self 2 keywords field_of_study) None w")
       (simp add: get_top_n_paper_ids_def mock_search_def)
qed

theorem top_n_paper_ids_follow_data_witness:
  "http_get (env_reply \<lparr>status_code = 200, json = Inr mock_search\<rparr>) (length (requests world0))
       (search_url SemanticScholarQueryHelper_init 2 KEYWORDS FIELDS_OF_STUDY)
     = Inr \<lparr>status_code = 200, json = Inr mock_search\<rparr>
   \<and> fst (get_top_n_paper_ids (env_reply \<lparr>status_code = 200, json = Inr mock_search\<rparr>)
          SemanticScholarQueryHelper_init 2 KEYWORDS FIELDS_OF_STUDY None world0)
     = Inr [PStr ''A1'', PStr ''B2'']"
proof -
  let ?env = "env_reply \<lparr>status_code = 200, json = Inr mock_search\<rparr>"
  have h: "http_get ?env (length (requests world0))
               (search_url SemanticScholarQueryHelper_init 2 KEYWORDS FIELDS_OF_STUDY)
             = Inr \<lparr>status_code = 200, json = Inr mock_search\<rparr>
           \<and> json \<lparr>status_code = 200, json = Inr mock_search\<rparr> = Inr mock_search"
    by (simp add: env_reply_def)
  from h top_n_paper_ids_follow_data [of ?env SemanticScholarQueryHelper_init 2 KEYWORDS
      FIELDS_OF_STUDY None world0]
  have "fst (get_top_n_paper_ids ?env SemanticScholarQueryHelper_init 2 KEYWORDS FIELDS_OF_STUDY
               None world0) = Inr [PStr ''A1'', PStr ''B2'']"
    by blast
  with h show ?thesis by blast
qed

section \<open>Seed papers\<close>

lemma paper_ids_of_map:
  "paper_ids_of ps = Inr ids \<longleftrightarrow> map (\<lambda>p. subscript p ''paperId'') ps = map Inr ids"
proof (induction ps arbitrary: ids)
  case Nil
  then show ?case by auto
next
  case (Cons p ps)
  show ?case
  proof (cases ids)
    case Nil
    then show ?thesis by (auto split: sum.splits)
  next
    case (Cons x xs)
    with Cons.IH [of xs] show ?thesis by (auto split: sum.splits)
  qed
qed

lemma id_list_Inr:
  assumes "id_list metadata key = Inr ids"
  shows "\<exists>xs ps. subscript metadata key = Inr xs \<and> py_iter xs = Inr ps \<and>
           (\<forall>entries. xs = PList entries \<longrightarrow> ps = entries) \<and>
           map (\<lambda>p. subscript p ''paperId'') ps = map Inr ids \<and> length ids = length ps"
proof -
  from assms obtain xs ps where a: "subscript metadata key = Inr xs" "py_iter xs = Inr ps"
    "paper_ids_of ps = Inr ids"
    by (auto simp: id_list_def split: sum.splits)
  then have m: "map (\<lambda>p. subscript p ''paperId'') ps = map Inr ids"
    by (simp add: paper_ids_of_map)
  then have "length ps = length ids" by (metis length_map)
  moreover from a(2) have "\<forall>entries. xs = PList entries \<longrightarrow> ps = entries" by auto
  ultimately show ?thesis using a m by auto
qed

text \<open>
  C4. When the construction of a seed paper succeeds, the one GET it issued returned a
  response whose decoded body has a \<^verbatim>\<open>citations\<close> entry and a \<^verbatim>\<open>references\<close> entry;
  \<open>citations\<close> is the list of the \<^verbatim>\<open>paperId\<close> values of the entries of the first and
  \<open>references\<close> that of the second: as long as the list it comes from, in the same order,
  an identifier that comes twice kept twice.
\<close>

theorem seed_paper_views_follow_response:
  assumes "SeedPaper_init env paper_id query w = (Inr sp, w')"
  shows "\<exists>r metadata cs cps rs rps.
           http_get env (length (requests w)) (metadata_url query paper_id QUERY_INFO_ABOUT_A_PAPER) = Inr r
         \<and> json r = Inr metadata
         \<and> subscript metadata ''citations'' = Inr cs \<and> py_iter cs = Inr cps
         \<and> (\<forall>entries. cs = PList entries \<longrightarrow> cps = entries)
         \<and> map (\<lambda>p. subscript p ''paperId'') cps = map Inr (citations sp)
         \<and> length (citations sp) = length cps
         \<and> subscript metadata ''references'' = Inr rs \<and> py_iter rs = Inr rps
         \<and> (\<forall>entries. rs = PList entries \<longrightarrow> rps = entries)
         \<and> map (\<lambda>p. subscript p ''paperId'') rps = map Inr (references sp)
         \<and> length (references sp) = length rps"
proof -
  obtain metadata w1 where g: "get_metadata env query paper_id QUERY_INFO_ABOUT_A_PAPER
      (Some (seed_save_path paper_id)) w = (metadata, w1)"
    by (cases "get_metadata env query paper_id QUERY_INFO_ABOUT_A_PAPER (Some (seed_save_path paper_id)) w")
  from assms g have c: "id_list metadata ''citations'' = Inr (citations sp)"
    and r: "id_list metadata ''references'' = Inr (references sp)"
    by (auto simp: SeedPaper_init_def citations_def references_def split: sum.splits)
  from c have "metadata \<noteq> PNone" by (auto simp: id_list_def)
  with g obtain resp where resp: "http_get env (length (requests w))
      (metadata_url query paper_id QUERY_INFO_ABOUT_A_PAPER) = Inr resp" "json resp = Inr metadata"
    unfolding get_metadata_def by (blast dest: query_get_decoded)
  from id_list_Inr [OF c] id_list_Inr [OF r] resp show ?thesis by blast
qed

theorem seed_paper_views_follow_response_witness:
  "fst (SeedPaper_init (env_reply \<lparr>status_code = 200, json = Inr mock_metadata\<rparr>) (PStr ''A1'')
          SemanticScholarQueryHelper_init world0) = Inr mock_seed
   \<and> citations mock_seed = [PStr ''C1''] \<and> references mock_seed = [PStr ''R1'']
   \<and> (\<exists>cps rps. length (citations mock_seed) = length (cps :: pyobj list)
         \<and> length (references mock_seed) = length (rps :: pyobj list))"
proof -
  let ?env = "env_reply \<lparr>status_code = 200, json = Inr mock_metadata\<rparr>"
  let ?init = "SeedPaper_init ?env (PStr ''A1'') SemanticScholarQueryHelper_init world0"
  have f: "fst ?init = Inr mock_seed"
    by (simp add: SeedPaper_init_def get_metadata_def query_get_def get_try_def session_get_def
        print_def sleep_def save_response_def seed_save_path_def Let_def env_reply_def
        mock_metadata_def world0_def mock_seed_def id_list_def)
  then have h: "?init = (Inr mock_seed, snd ?init)" by (metis prod.collapse)
  have v: "citations mock_seed = [PStr ''C1''] \<and> references mock_seed = [PStr ''R1'']"
    by (simp add: citations_def references_def mock_seed_def)
  from seed_paper_views_follow_response [OF h]
  have "\<exists>cps rps. length (citations mock_seed) = length (cps :: pyobj list)
         \<and> length (references mock_seed) = length (rps :: pyobj list)"
    by blast
  with f v show ?thesis by blast
qed

section \<open>Snowballing\<close>

lemma snowball_loop_fetch_each:
  "snowball_loop env ids (self, w) = (self, fetch_each env (f_query self) ids w)"
  by (induction ids arbitrary: w)
     (simp_all add: fetch_each_def snowball_save_path_def SNOWBALLING_PAPER_DIR_def
        QUERY_INFO_ABOUT_A_PAPER_def split: prod.splits)

lemma fetch_each_append:
  "fetch_each env q (xs @ ys) w = fetch_each env q ys (fetch_each env q xs w)"
  by (simp add: fetch_each_def)

lemma snowballing_fetch_each:
  "snowballing env (self, w) = (self, fetch_each env (f_query self) (references self @ citations self) w)"
  by (simp add: snowballing_def snowball_loop_fetch_each fetch_each_append)

lemma fetch_each_requests:
  "requests (fetch_each env q ids w) =
     requests w @ map (\<lambda>paper_id. (metadata_url q paper_id QUERY_INFO_ABOUT_A_PAPER, 30)) ids"
proof (induction ids arbitrary: w)
  case Nil
  then show ?case by (simp add: fetch_each_def)
next
  case (Cons a ids)
  have "fetch_each env q (a # ids) w = fetch_each env q ids (fetch_each env q [a] w)"
    using fetch_each_append [of env q "[a]" ids w] by simp
  moreover have "requests (fetch_each env q [a] w) =
      requests w @ [(metadata_url q a QUERY_INFO_ABOUT_A_PAPER, 30)]"
    by (simp add: fetch_each_def get_metadata_def query_get_requests QUERY_INFO_ABOUT_A_PAPER_def)
  ultimately show ?case using Cons.IH by simp
qed

lemma query_get_files_other:
  "p \<noteq> sp \<Longrightarrow> files (snd (query_get env url (Some sp) w)) p = files w p"
  by (simp add: query_get_files split: sum.splits option.splits prod.splits)

lemma fetch_each_Cons:
  "fetch_each env q (a # ids) w =
     fetch_each env q ids
       (snd (get_metadata env q a QUERY_INFO_ABOUT_A_PAPER
               (Some (''./output/snowballing papers/'' @ py_str a @ ''.json'')) w))"
  by (simp add: fetch_each_def QUERY_INFO_ABOUT_A_PAPER_def)

lemma fetch_each_files_other:
  "p \<notin> (\<lambda>paper_id. ''./output/snowballing papers/'' @ py_str paper_id @ ''.json'') ` set ids \<Longrightarrow>
     files (fetch_each env q ids w) p = files w p"
proof (induction ids arbitrary: w)
  case Nil
  then show ?case by (simp add: fetch_each_def)
next
  case (Cons a ids)
  from Cons.prems have ne: "p \<noteq> ''./output/snowballing papers/'' @ py_str a @ ''.json''"
    and "p \<notin> (\<lambda>paper_id. ''./output/snowballing papers/'' @ py_str paper_id @ ''.json'') ` set ids"
    by auto
  then have ih: "files (fetch_each env q ids w') p = files w' p" for w'
    by (intro Cons.IH)
  from \<open>p \<noteq> ''./output/snowballing papers/'' @ py_str a @ ''.json''\<close>
  have "files (snd (query_get env (metadata_url q a QUERY_INFO_ABOUT_A_PAPER)
                      (Some (''./output/snowballing papers/'' @ py_str a @ ''.json'')) w)) p = files w p"
    by (rule query_get_files_other)
  with ih show ?case
    by (simp only: fetch_each_Cons get_metadata_def)
qed

lemma fetch_each_length_requests:
  "length (requests (fetch_each env q ids w)) = length (requests w) + length ids"
  by (simp add: fetch_each_requests)

lemma fetch_each_saved:
  assumes i: "i < length ids"
    and get: "http_get env (length (requests w) + i) (metadata_url q (ids ! i) QUERY_INFO_ABOUT_A_PAPER) = Inr r"
    and dec: "json r = Inr obj"
    and op: "fs_open env (''./output/snowballing papers/'' @ py_str (ids ! i) @ ''.json'') = None"
    and wr: "fs_write env (''./output/snowballing papers/'' @ py_str (ids ! i) @ ''.json'') = None"
    and later: "\<forall>j. i < j \<and> j < length ids \<longrightarrow>
                 ''./output/snowballing papers/'' @ py_str (ids ! j) @ ''.json''
                   \<noteq> ''./output/snowballing papers/'' @ py_str (ids ! i) @ ''.json''"
  shows "files (fetch_each env q ids w) (''./output/snowballing papers/'' @ py_str (ids ! i) @ ''.json'')
           = Some (json_dumps obj)"
proof -
  let ?path = "\<lambda>paper_id. ''./output/snowballing papers/'' @ py_str paper_id @ ''.json''"
  let ?w1 = "fetch_each env q (take i ids) w"
  let ?w2 = "snd (get_metadata env q (ids ! i) QUERY_INFO_ABOUT_A_PAPER (Some (?path (ids ! i))) ?w1)"
  have split: "ids = take i ids @ (ids ! i) # drop (Suc i) ids"
    using i by (simp add: id_take_nth_drop)
  have "fetch_each env q ids w = fetch_each env q ((ids ! i) # drop (Suc i) ids) ?w1"
    using fetch_each_append [of env q "take i ids" "(ids ! i) # drop (Suc i) ids" w] split by simp
  then have whole: "fetch_each env q ids w = fetch_each env q (drop (Suc i) ids) ?w2"
    by (simp only: fetch_each_Cons)
  have len: "length (requests ?w1) = length (requests w) + i"
    using i by (simp add: fetch_each_length_requests)
  have ne: "?path (ids ! i) \<noteq> []" by simp
  have "get_try env (metadata_url q (ids ! i) QUERY_INFO_ABOUT_A_PAPER) (Some (?path (ids ! i))) ?w1
          = (Inr obj, ?w1\<lparr>requests := requests ?w1 @ [(metadata_url q (ids ! i) QUERY_INFO_ABOUT_A_PAPER, 30)],
                stdout := stdout ?w1 @ [''querying '' @ metadata_url q (ids ! i) QUERY_INFO_ABOUT_A_PAPER],
                files := (files ?w1)(?path (ids ! i) \<mapsto> json_dumps obj),
                slept := slept ?w1 + 3.5\<rparr>)"
    by (rule get_try_saved) (use get dec op wr len ne in simp_all)
  then have saved: "files ?w2 (?path (ids ! i)) = Some (json_dumps obj)"
    by (simp add: get_metadata_def query_get_def)
  have "?path (ids ! i) \<notin> ?path ` set (drop (Suc i) ids)"
  proof
    assume "?path (ids ! i) \<in> ?path ` set (drop (Suc i) ids)"
    then obtain x where x: "x \<in> set (drop (Suc i) ids)" "?path x = ?path (ids ! i)" by auto
    then obtain k where k: "k < length (drop (Suc i) ids)" "drop (Suc i) ids ! k = x"
      by (auto simp: in_set_conv_nth)
    then have "ids ! (Suc i + k) = x" "i < Suc i + k" "Suc i + k < length ids" by auto
    with later x(2) show False by metis
  qed
  then have "files (fetch_each env q (drop (Suc i) ids) ?w2) (?path (ids ! i)) = files ?w2 (?path (ids ! i))"
    by (rule fetch_each_files_other)
  with whole saved show ?thesis by simp
qed

text \<open>
  C5. Snowballing does what the specification says of it: it is one fetch for each
  identifier of the references, in order, then one for each identifier of the citations,
  in order, each with the field set of the seed construction, the values dropped. So it
  issues exactly \<open>length references + length citations\<close> GETs, those for the references
  first. Each fetch saves to \<^verbatim>\<open>./output/snowballing papers/<id>.json\<close>: no other file is
  created or changed, and when the GET for an identifier returns a body that can be decoded
  and the file can be written, the file named by that identifier holds the text of that
  body at the end, unless a later identifier names the same file.
\<close>

theorem snowballing_fetches_references_then_citations:
  "snd (snowballing env (self, w)) = fetch_each env (f_query self) (references self @ citations self) w
   \<and> requests (snd (snowballing env (self, w))) =
       requests w @ map (\<lambda>paper_id. (metadata_url (f_query self) paper_id QUERY_INFO_ABOUT_A_PAPER, 30))
                        (references self @ citations self)
   \<and> length (requests (snd (snowballing env (self, w)))) =
       length (requests w) + (length (references self) + length (citations self))
   \<and> (\<forall>p. p \<notin> (\<lambda>paper_id. ''./output/snowballing papers/'' @ py_str paper_id @ ''.json'')
                 ` set (references self @ citations self) \<longrightarrow>
          files (snd (snowballing env (self, w))) p = files w p)
   \<and> (\<forall>i r obj.
          i < length (references self @ citations self) \<and>
          http_get env (length (requests w) + i)
            (metadata_url (f_query self) ((references self @ citations self) ! i) QUERY_INFO_ABOUT_A_PAPER)
            = Inr r \<and>
          json r = Inr obj \<and>
          fs_open env (''./output/snowballing papers/''
                         @ py_str ((references self @ citations self) ! i) @ ''.json'') = None \<and>
          fs_write env (''./output/snowballing papers/''
                          @ py_str ((references self @ citations self) ! i) @ ''.json'') = None \<and>
          (\<forall>j. i < j \<and> j < length (references self @ citations self) \<longrightarrow>
                ''./output/snowballing papers/'' @ py_str ((references self @ citations self) ! j) @ ''.json''
                  \<noteq> ''./output/snowballing papers/''
                       @ py_str ((references self @ citations self) ! i) @ ''.json'')
          \<longrightarrow>
          files (snd (snowballing env (self, w)))
            (''./output/snowballing papers/'' @ py_str ((references self @ citations self) ! i) @ ''.json'')
            = Some (json_dumps obj))"
proof (intro conjI allI impI)
  fix p
  assume "p \<notin> (\<lambda>paper_id. ''./output/snowballing papers/'' @ py_str paper_id @ ''.json'')
                 ` set (references self @ citations self)"
  then have "files (fetch_each env (f_query self) (references self @ citations self) w) p = files w p"
    by (rule fetch_each_files_other)
  then show "files (snd (snowballing env (self, w))) p = files w p"
    by (simp only: snowballing_fetch_each snd_conv)
next
  fix i r obj
  let ?ids = "references self @ citations self"
  assume a: "i < length ?ids \<and>
          http_get env (length (requests w) + i)
            (metadata_url (f_query self) (?ids ! i) QUERY_INFO_ABOUT_A_PAPER) = Inr r \<and>
          json r = Inr obj \<and>
          fs_open env (''./output/snowballing papers/'' @ py_str (?ids ! i) @ ''.json'') = None \<and>
          fs_write env (''./output/snowballing papers/'' @ py_str (?ids ! i) @ ''.json'') = None \<and>
          (\<forall>j. i < j \<and> j < length ?ids \<longrightarrow>
                ''./output/snowballing papers/'' @ py_str (?ids ! j) @ ''.json''
                  \<noteq> ''./output/snowballing papers/'' @ py_str (?ids ! i) @ ''.json'')"
  have "files (fetch_each env (f_query self) ?ids w)
          (''./output/snowballing papers/'' @ py_str (?ids ! i) @ ''.json'') = Some (json_dumps obj)"
    by (rule fetch_each_saved) (use a in blast)+
  then show "files (snd (snowballing env (self, w)))
            (''./output/snowballing papers/'' @ py_str (?ids ! i) @ ''.json'') = Some (json_dumps obj)"
    by (simp only: snowballing_fetch_each snd_conv)
qed (simp_all add: snowballing_fetch_each fetch_each_requests)

theorem snowballing_fetches_references_then_citations_witness:
  "requests (snd (snowballing (env_reply \<lparr>status_code = 200, json = Inr mock_metadata\<rparr>)
                    (mock_seed, world0)))
     = [(''http://api.semanticscholar.org/graph/v1/paper/R1?fields=url,title,abstract,authors,year,publicationTypes,citations,references,citations.fieldsOfStudy'', 30),
        (''http://api.semanticscholar.org/graph/v1/paper/C1?fields=url,title,abstract,authors,year,publicationTypes,citations,references,citations.fieldsOfStudy'', 30)]
   \<and> files (snd (snowballing (env_reply \<lparr>status_code = 200, json = Inr mock_metadata\<rparr>)
                    (mock_seed, world0))) ''./output/snowballing papers/R1.json''
       = Some (json_dumps mock_metadata)
   \<and> files (snd (snowballing (env_reply \<lparr>status_code = 200, json = Inr mock_metadata\<rparr>)
                    (mock_seed, world0))) ''./output/seed papers/A1.json''
       = files world0 ''./output/seed papers/A1.json''"
proof -
  let ?env = "env_reply \<lparr>status_code = 200, json = Inr mock_metadata\<rparr>"
  let ?ids = "references mock_seed @ citations mock_seed"
  let ?path = "\<lambda>paper_id. ''./output/snowballing papers/'' @ py_str paper_id @ ''.json''"
  note t = snowballing_fetches_references_then_citations [of ?env mock_seed world0]
  have ids: "?ids = [PStr ''R1'', PStr ''C1'']"
    by (simp add: mock_seed_def references_def citations_def)
  from t have "requests (snd (snowballing ?env (mock_seed, world0))) =
       requests world0 @ map (\<lambda>paper_id. (metadata_url (f_query mock_seed) paper_id QUERY_INFO_ABOUT_A_PAPER, 30))
                        ?ids"
    by blast
  also have "\<dots> = [(''http://api.semanticscholar.org/graph/v1/paper/R1?fields=url,title,abstract,authors,year,publicationTypes,citations,references,citations.fieldsOfStudy'', 30),
        (''http://api.semanticscholar.org/graph/v1/paper/C1?fields=url,title,abstract,authors,year,publicationTypes,citations,references,citations.fieldsOfStudy'', 30)]"
    by (simp add: mock_seed_def world0_def references_def citations_def metadata_url_def
        SemanticScholarQueryHelper_init_def QUERY_INFO_ABOUT_A_PAPER_def)
  finally have c1: "requests (snd (snowballing ?env (mock_seed, world0))) = [(''http://api.semanticscholar.org/graph/v1/paper/R1?fields=url,title,abstract,authors,year,publicationTypes,citations,references,citations.fieldsOfStudy'', 30),
        (''http://api.semanticscholar.org/graph/v1/paper/C1?fields=url,title,abstract,authors,year,publicationTypes,citations,references,citations.fieldsOfStudy'', 30)]" .
  have h: "0 < length ?ids \<and>
          http_get ?env (length (requests world0) + 0)
            (metadata_url (f_query mock_seed) (?ids ! 0) QUERY_INFO_ABOUT_A_PAPER)
            = Inr \<lparr>status_code = 200, json = Inr mock_metadata\<rparr> \<and>
          json \<lparr>status_code = 200, json = Inr mock_metadata\<rparr> = Inr mock_metadata \<and>
          fs_open ?env (?path (?ids ! 0)) = None \<and>
          fs_write ?env (?path (?ids ! 0)) = None \<and>
          (\<forall>j. 0 < j \<and> j < length ?ids \<longrightarrow> ?path (?ids ! j) \<noteq> ?path (?ids ! 0))"
  proof -
    have "\<forall>j. 0 < j \<and> j < length ?ids \<longrightarrow> ?path (?ids ! j) \<noteq> ?path (?ids ! 0)"
    proof (intro allI impI)
      fix j assume "0 < j \<and> j < length ?ids"
      then have "j = 1" by (simp add: ids)
      then show "?path (?ids ! j) \<noteq> ?path (?ids ! 0)" by (simp add: ids)
    qed
    then show ?thesis by (simp add: ids env_reply_def)
  qed
  from t h have "files (snd (snowballing ?env (mock_seed, world0))) (?path (?ids ! 0))
            = Some (json_dumps mock_metadata)"
    by blast
  then have c2: "files (snd (snowballing ?env (mock_seed, world0))) ''./output/snowballing papers/R1.json''
       = Some (json_dumps mock_metadata)"
    by (simp add: ids)
  have "''./output/seed papers/A1.json'' \<notin> ?path ` set ?ids"
    by (simp add: ids)
  with t have c3: "files (snd (snowballing ?env (mock_seed, world0))) ''./output/seed papers/A1.json''
       = files world0 ''./output/seed papers/A1.json''"
    by blast
  from c1 c2 c3 show ?thesis by blast
qed

text \<open>
  C8. Snowballing, run any number of times, hands back the seed paper it was given:
  the identifier, the citations and the references are those set by the construction, and
  \<open>citations\<close> and \<open>references\<close> return the same lists before and after.
\<close>

theorem snowballing_keeps_seed_paper:
  "fst ((snowballing env ^^ k) (self, w)) = self
   \<and> citations (fst ((snowballing env ^^ k) (self, w))) = citations self
   \<and> references (fst ((snowballing env ^^ k) (self, w))) = references self"
proof -
  have "fst ((snowballing env ^^ k) (self, w)) = self"
  proof (induction k)
    case 0
    then show ?case by simp
  next
    case (Suc k)
    obtain s1 w1 where p: "(snowballing env ^^ k) (self, w) = (s1, w1)"
      by (cases "(snowballing env ^^ k) (self, w)")
    with Suc show ?case by (simp add: snowballing_fetch_each)
  qed
  then show ?thesis by simp
qed

theorem snowballing_keeps_seed_paper_witness:
  "fst ((snowballing (env_reply \<lparr>status_code = 200, json = Inr mock_metadata\<rparr>) ^^ 2)
          (mock_seed, world0)) = mock_seed
   \<and> citations (fst ((snowballing (env_reply \<lparr>status_code = 200, json = Inr mock_metadata\<rparr>) ^^ 2)
          (mock_seed, world0))) = [PStr ''C1'']"
  using snowballing_keeps_seed_paper
          [of 2 "env_reply \<lparr>status_code = 200, json = Inr mock_metadata\<rparr>" mock_seed world0]
  by (simp add: citations_def mock_seed_def)

section \<open>The saved file read back\<close>

subsection \<open>Digits and strings\<close>

















subsection \<open>Values\<close>






lemma skip_ws_value_end: "value_end rest \<Longrightarrow> skip_ws rest = rest"
  by (cases rest) (auto simp: skip_ws_def value_end_def is_ws_def)






subsection \<open>Enough fuel\<close>






end
